theory Spec2Isabelle
  imports Complex_Main "HOL-Library.AList" "HOL-Library.List_Lexorder" "HOL-Library.Char_ord"
begin

section \<open>Python values\<close>

text \<open>
  Python floats are read as exact rationals: every arithmetic step below is the exact
  operation, so rounding error of binary floating point, NaN and the infinities are outside
  the model. Decoded JSON (what \<^verbatim>\<open>resp.json()\<close> returns) is the datatype \<open>json\<close>; the list
  under \<open>JObj\<close> holds the items of the decoded dict, keys distinct.
\<close>

datatype json = JNull | JBool bool | JNum rat | JStr string | JArr "json list"
  | JObj "(string \<times> json) list"

type_synonym dict = "(string \<times> json) list"

datatype exn =
    HTTPException nat string
  | HTTPError
  | ValueError
  | TypeError
  | AttributeError
  | ZeroDivisionError
  | SendFailed

type_synonym 'a result = "exn + 'a"

text \<open>Truthiness of a value, as \<^verbatim>\<open>not x\<close>, \<^verbatim>\<open>x or y\<close> and \<^verbatim>\<open>if x\<close> test it.\<close>

fun truthy :: "json \<Rightarrow> bool" where
  "truthy JNull = False"
| "truthy (JBool b) = b"
| "truthy (JNum x) = (x \<noteq> 0)"
| "truthy (JStr s) = (s \<noteq> [])"
| "truthy (JArr xs) = (xs \<noteq> [])"
| "truthy (JObj kv) = (kv \<noteq> [])"

definition py_or :: "json \<Rightarrow> json \<Rightarrow> json" where
  "py_or a b = (if truthy a then a else b)"

text \<open>\<^verbatim>\<open>d.get(k)\<close>: the value, or None for a missing key.\<close>

definition dget :: "dict \<Rightarrow> string \<Rightarrow> json" where
  "dget d k = (case map_of d k of None \<Rightarrow> JNull | Some v \<Rightarrow> v)"

text \<open>\<^verbatim>\<open>str.upper()\<close> on ASCII text.\<close>

definition upper_char :: "char \<Rightarrow> char" where
  "upper_char c = (let n = (of_char c :: nat) in
     if 97 \<le> n \<and> n \<le> 122 then char_of (n - 32) else c)"

definition upper :: "string \<Rightarrow> string" where
  "upper s = map upper_char s"

text \<open>\<^verbatim>\<open>s.replace(old, "")\<close>: every occurrence of \<open>old\<close> removed, scanning from the left.\<close>

fun remove_all :: "string \<Rightarrow> string \<Rightarrow> string" where
  "remove_all old [] = []"
| "remove_all old (c # cs) =
     (if old \<noteq> [] \<and> take (length old) (c # cs) = old
      then remove_all old (drop (length old) (c # cs))
      else c # remove_all old cs)"

text \<open>\<^verbatim>\<open>int(x)\<close> of a float truncates towards zero.\<close>

definition py_int :: "rat \<Rightarrow> int" where
  "py_int x = (if 0 \<le> x then \<lfloor>x\<rfloor> else \<lceil>x\<rceil>)"

section \<open>The module state of routes/trading.py and the world around it\<close>

datatype side = BUY | SELL

datatype order_type = Market | Limit

text \<open>
  The client order id is the string \<^verbatim>\<open>f"{base_local}-{timestamp_ms}"\<close>; it is kept as its two
  parts, \<open>None\<close> standing for the literal \<^verbatim>\<open>"local"\<close>.
\<close>

type_synonym client_order_id = "int option \<times> int"

text \<open>An entry of \<^verbatim>\<open>_orders\<close>: the dump of an \<^verbatim>\<open>OrderIn\<close> plus the keys the routes add.\<close>

record order =
  symbol :: string
  qty :: rat
  leverage :: int
  side :: side
  order_type :: order_type
  limit_price :: "rat option"
  margin :: "rat option"
  oid :: int
  local_id :: int
  last_client_order_id :: "client_order_id option"

text \<open>The \<^verbatim>\<open>order\<close> object of the request body sent to the exchange, with its timestamp.\<close>

record payload =
  p_timestamp :: int
  p_pair :: string
  p_side :: string
  p_order_type :: string
  p_price :: rat
  p_total_quantity :: rat
  p_leverage :: int
  p_time_in_force :: string
  p_margin_currency_short_name :: string
  p_client_order_id :: client_order_id

type_synonym conn = nat

text \<open>What the process did to the outside: requests sent and websocket messages pushed.\<close>

datatype event =
    GetTickers
  | GetWallets
  | GetActiveInstruments string
  | GetInstrument string string
  | PostOrder payload
  | WsSend conn string rat

text \<open>
  The module-level variables. A Python set is a list here (its iteration order is the order
  of the list). \<open>net\<close> is not a variable of the source: it records the requests and pushes
  performed so far, oldest first.
\<close>

record state =
  ticker_cache :: "(string \<times> rat) list"
  ticker_cache_updated_at :: rat
  orders :: "order list"
  order_next_id :: int
  futures_wallets_cache :: "json list option"
  futures_wallets_cached_at :: rat
  active_instruments_cache :: "(string \<times> string list) list"
  active_instruments_cached_at :: "(string \<times> rat) list"
  instrument_cache :: "((string \<times> string) \<times> dict) list"
  instrument_cached_at :: "((string \<times> string) \<times> rat) list"
  ws_connections :: "conn list"
  ws_subscriptions :: "(conn \<times> string list) list"
  net :: "event list"

text \<open>
  Everything one operation reads from outside the module: the clock, the credentials of the
  environment, the answer of each exchange endpoint (\<open>None\<close>: the request raises), whether a
  websocket accepts a message, and the two builtins that are applied to decoded text
  (\<^verbatim>\<open>float\<close> of a string, \<open>None\<close> for ValueError; \<^verbatim>\<open>str\<close> of a value that is not a string).
\<close>

record env =
  now :: rat
  api_key :: "string option"
  api_secret :: "string option"
  tickers_response :: "json option"
  wallets_response :: "json option"
  active_instruments_response :: "string \<Rightarrow> json option"
  instrument_response :: "string \<Rightarrow> string \<Rightarrow> json option"
  order_response :: "payload \<Rightarrow> (nat \<times> string) option"
  send_ok :: "conn \<Rightarrow> bool"
  float_of_str :: "string \<Rightarrow> rat option"
  str_of :: "json \<Rightarrow> string"

text \<open>\<^verbatim>\<open>float(x)\<close>, with the exception it raises on a value that does not convert.\<close>

fun py_float :: "env \<Rightarrow> json \<Rightarrow> rat result" where
  "py_float e (JNum x) = Inr x"
| "py_float e (JBool b) = Inr (if b then 1 else 0)"
| "py_float e (JStr s) = (case float_of_str e s of None \<Rightarrow> Inl ValueError | Some x \<Rightarrow> Inr x)"
| "py_float e JNull = Inl TypeError"
| "py_float e (JArr xs) = Inl TypeError"
| "py_float e (JObj kv) = Inl TypeError"

fun py_str :: "env \<Rightarrow> json \<Rightarrow> string" where
  "py_str e (JStr s) = s"
| "py_str e JNull = str_of e JNull"
| "py_str e (JBool b) = str_of e (JBool b)"
| "py_str e (JNum x) = str_of e (JNum x)"
| "py_str e (JArr xs) = str_of e (JArr xs)"
| "py_str e (JObj kv) = str_of e (JObj kv)"

section \<open>Ticker cache (routes/trading.py)\<close>

text \<open>The first loop of \<^verbatim>\<open>_guess_symbol_from_item\<close>: the first candidate key holding a string.\<close>

fun guess_symbol_direct :: "string list \<Rightarrow> dict \<Rightarrow> string option" where
  "guess_symbol_direct [] item = None"
| "guess_symbol_direct (k # ks) item =
     (case map_of item k of
        Some (JStr v) \<Rightarrow> Some (upper v)
      | _ \<Rightarrow> guess_symbol_direct ks item)"

text \<open>Its second loop, over the nested \<^verbatim>\<open>ticker\<close> dict: the first candidate key present.\<close>

fun guess_symbol_nested :: "env \<Rightarrow> string list \<Rightarrow> dict \<Rightarrow> string option" where
  "guess_symbol_nested e [] t = None"
| "guess_symbol_nested e (k # ks) t =
     (case map_of t k of
        Some v \<Rightarrow> Some (upper (py_str e v))
      | None \<Rightarrow> guess_symbol_nested e ks t)"

definition guess_symbol_from_item :: "env \<Rightarrow> dict \<Rightarrow> string option" where
  "guess_symbol_from_item e item =
     (case guess_symbol_direct [''market'', ''symbol'', ''pair'', ''market_symbol''] item of
        Some s \<Rightarrow> Some s
      | None \<Rightarrow>
          (case map_of item ''ticker'' of
             Some (JObj t) \<Rightarrow> guess_symbol_nested e [''symbol'', ''pair''] t
           | _ \<Rightarrow> None))"

text \<open>The loops of \<^verbatim>\<open>_guess_last_from_item\<close>: the first candidate key whose value converts.\<close>

fun first_float :: "env \<Rightarrow> string list \<Rightarrow> dict \<Rightarrow> rat option" where
  "first_float e [] item = None"
| "first_float e (k # ks) item =
     (case map_of item k of
        Some v \<Rightarrow> (case py_float e v of Inr x \<Rightarrow> Some x | Inl _ \<Rightarrow> first_float e ks item)
      | None \<Rightarrow> first_float e ks item)"

definition guess_last_from_item :: "env \<Rightarrow> dict \<Rightarrow> rat option" where
  "guess_last_from_item e item =
     (case first_float e [''last'', ''last_price'', ''price'', ''close''] item of
        Some x \<Rightarrow> Some x
      | None \<Rightarrow>
          (case map_of item ''ticker'' of
             Some (JObj t) \<Rightarrow> first_float e [''last'', ''last_price'', ''close'', ''price''] t
           | _ \<Rightarrow> None))"

text \<open>The loop of \<^verbatim>\<open>refresh_ticker_cache\<close> that fills \<^verbatim>\<open>new_cache\<close>.\<close>

fun fill_new_cache :: "env \<Rightarrow> json list \<Rightarrow> (string \<times> rat) list \<Rightarrow> (string \<times> rat) list" where
  "fill_new_cache e [] new_cache = new_cache"
| "fill_new_cache e (JObj item # items) new_cache =
     (case (guess_symbol_from_item e item, guess_last_from_item e item) of
        (Some sy, Some la) \<Rightarrow>
          if sy \<noteq> [] then fill_new_cache e items (AList.update sy la new_cache)
          else fill_new_cache e items new_cache
      | _ \<Rightarrow> fill_new_cache e items new_cache)"
| "fill_new_cache e (_ # items) new_cache = fill_new_cache e items new_cache"

text \<open>
  The function defined as \<^verbatim>\<open>refresh_ticker_cache\<close> at line 140, kept by the module as
  \<^verbatim>\<open>_original_refresh\<close>. Its \<^verbatim>\<open>except Exception\<close> logs and swallows a failed fetch.
\<close>

definition original_refresh :: "state \<Rightarrow> env \<Rightarrow> state" where
  "original_refresh st e =
     (let st1 = st\<lparr>net := net st @ [GetTickers]\<rparr> in
      case tickers_response e of
        None \<Rightarrow> st1
      | Some data \<Rightarrow>
          (let new_cache = fill_new_cache e (case data of JArr xs \<Rightarrow> xs | _ \<Rightarrow> []) [] in
           if new_cache \<noteq> []
           then st1\<lparr>ticker_cache := new_cache, ticker_cache_updated_at := now e\<rparr>
           else st1))"

text \<open>\<^verbatim>\<open>_broadcast_price_updates\<close>: the inner loop over one connection's subscriptions.\<close>

fun send_subscribed :: "env \<Rightarrow> conn \<Rightarrow> string list \<Rightarrow> state \<Rightarrow> unit result \<times> state" where
  "send_subscribed e ws [] st = (Inr (), st)"
| "send_subscribed e ws (s # ss) st =
     (case map_of (ticker_cache st) s of
        None \<Rightarrow> send_subscribed e ws ss st
      | Some price \<Rightarrow>
          if send_ok e ws
          then send_subscribed e ws ss (st\<lparr>net := net st @ [WsSend ws s price]\<rparr>)
          else (Inl SendFailed, st))"

text \<open>The outer loop over the connections.\<close>

fun broadcast_conns :: "env \<Rightarrow> conn list \<Rightarrow> state \<Rightarrow> unit result \<times> state" where
  "broadcast_conns e [] st = (Inr (), st)"
| "broadcast_conns e (ws # wss) st =
     (case send_subscribed e ws
             (case map_of (ws_subscriptions st) ws of None \<Rightarrow> [] | Some subs \<Rightarrow> subs) st of
        (Inl x, st') \<Rightarrow> (Inl x, st')
      | (Inr u, st') \<Rightarrow> broadcast_conns e wss st')"

definition broadcast_price_updates :: "state \<Rightarrow> env \<Rightarrow> unit result \<times> state" where
  "broadcast_price_updates st e =
     (if ws_connections st = [] then (Inr (), st)
      else broadcast_conns e (ws_connections st) st)"

text \<open>
  Line 777 rebinds the module name \<^verbatim>\<open>refresh_ticker_cache\<close> to this function, so every call
  \<^verbatim>\<open>refresh_ticker_cache()\<close> in the module (the background loop, the price route, the FX
  helper) runs it.
\<close>

definition refresh_ticker_cache_and_broadcast :: "state \<Rightarrow> env \<Rightarrow> unit result \<times> state" where
  "refresh_ticker_cache_and_broadcast st e = broadcast_price_updates (original_refresh st e) e"

text \<open>
  \<^verbatim>\<open>ticker_background_loop\<close>. The list gives the world of each cycle the loop gets to start;
  when it is used up the task is cancelled at its sleep, the only exception the loop handles.
\<close>

datatype loop_exit = Cancelled | Crashed exn

fun ticker_background_loop :: "state \<Rightarrow> env list \<Rightarrow> loop_exit \<times> state" where
  "ticker_background_loop st [] = (Cancelled, st)"
| "ticker_background_loop st (e # es) =
     (case refresh_ticker_cache_and_broadcast st e of
        (Inl x, st') \<Rightarrow> (Crashed x, st')
      | (Inr u, st') \<Rightarrow> ticker_background_loop st' es)"

section \<open>Futures wallets, active instruments, instrument details (routes/trading.py)\<close>

text \<open>A credential read from the environment counts when it is set and not empty.\<close>

definition cred_set :: "string option \<Rightarrow> bool" where
  "cred_set c = (case c of None \<Rightarrow> False | Some s \<Rightarrow> s \<noteq> [])"

text \<open>\<^verbatim>\<open>_fetch_futures_wallets\<close>: returns the decoded answer, None without credentials.\<close>

definition fetch_futures_wallets :: "state \<Rightarrow> env \<Rightarrow> json option result \<times> state" where
  "fetch_futures_wallets st e =
     (if \<not> (cred_set (api_key e) \<and> cred_set (api_secret e)) then (Inr None, st)
      else
        (let st1 = st\<lparr>net := net st @ [GetWallets]\<rparr> in
         case wallets_response e of
           None \<Rightarrow> (Inl HTTPError, st1)
         | Some data \<Rightarrow>
             (Inr (Some data),
              st1\<lparr>futures_wallets_cache := Some (case data of JArr ws \<Rightarrow> ws | _ \<Rightarrow> [data]),
                  futures_wallets_cached_at := now e\<rparr>)))"

text \<open>The search loop of \<^verbatim>\<open>_get_inr_futures_wallet\<close>.\<close>

fun find_inr_wallet :: "json list \<Rightarrow> dict option result" where
  "find_inr_wallet [] = Inr None"
| "find_inr_wallet (JObj w # ws) =
     (case py_or (dget w ''currency_short_name'') (JStr []) of
        JStr s \<Rightarrow> if upper s = ''INR'' then Inr (Some w) else find_inr_wallet ws
      | _ \<Rightarrow> Inl AttributeError)"
| "find_inr_wallet (_ # ws) = Inl AttributeError"

definition get_inr_futures_wallet :: "state \<Rightarrow> env \<Rightarrow> dict option result \<times> state" where
  "get_inr_futures_wallet st e =
     (case (if (case futures_wallets_cache st of None \<Rightarrow> True | Some ws \<Rightarrow> ws = [])
                \<or> now e - futures_wallets_cached_at st > 30
            then fetch_futures_wallets st e else (Inr None, st)) of
        (Inl x, st') \<Rightarrow> (Inl x, st')
      | (Inr _, st') \<Rightarrow>
          (find_inr_wallet (case futures_wallets_cache st' of None \<Rightarrow> [] | Some ws \<Rightarrow> ws), st'))"

text \<open>What a \<^verbatim>\<open>for\<close> loop iterates over: list elements, dict keys, the characters of a string.\<close>

fun py_iter :: "json \<Rightarrow> json list result" where
  "py_iter (JArr xs) = Inr xs"
| "py_iter (JObj kv) = Inr (map (\<lambda>p. JStr (fst p)) kv)"
| "py_iter (JStr s) = Inr (map (\<lambda>c. JStr [c]) s)"
| "py_iter JNull = Inl TypeError"
| "py_iter (JBool b) = Inl TypeError"
| "py_iter (JNum x) = Inl TypeError"

definition fetch_active_instruments :: "state \<Rightarrow> env \<Rightarrow> string \<Rightarrow> string list result \<times> state" where
  "fetch_active_instruments st e margin_currency =
     (let mc = upper margin_currency;
          st1 = st\<lparr>net := net st @ [GetActiveInstruments mc]\<rparr> in
      case active_instruments_response e mc of
        None \<Rightarrow> (Inl HTTPError, st1)
      | Some data \<Rightarrow>
          (case py_iter (py_or data (JArr [])) of
             Inl x \<Rightarrow> (Inl x, st1)
           | Inr xs \<Rightarrow>
               (let instruments = remdups (map (py_str e) xs) in
                (Inr instruments,
                 st1\<lparr>active_instruments_cache :=
                       AList.update mc instruments (active_instruments_cache st1),
                     active_instruments_cached_at :=
                       AList.update mc (now e) (active_instruments_cached_at st1)\<rparr>))))"

definition get_active_instruments :: "state \<Rightarrow> env \<Rightarrow> string \<Rightarrow> string list \<times> state" where
  "get_active_instruments st e margin_currency =
     (let mc = upper margin_currency;
          instruments = (case map_of (active_instruments_cache st) mc of
                           None \<Rightarrow> [] | Some s \<Rightarrow> s);
          ts = (case map_of (active_instruments_cached_at st) mc of None \<Rightarrow> 0 | Some t \<Rightarrow> t) in
      if instruments = [] \<or> now e - ts > 60
      then (case fetch_active_instruments st e mc of
              (Inr fetched, st') \<Rightarrow> (fetched, st')
            | (Inl x, st') \<Rightarrow>
                ((case map_of (active_instruments_cache st') mc of None \<Rightarrow> [] | Some s \<Rightarrow> s),
                 st'))
      else (instruments, st))"

definition fetch_instrument_details ::
  "state \<Rightarrow> env \<Rightarrow> string \<Rightarrow> string \<Rightarrow> dict result \<times> state" where
  "fetch_instrument_details st e pair margin_currency =
     (let mc = upper margin_currency;
          key = (pair, mc);
          st1 = st\<lparr>net := net st @ [GetInstrument pair mc]\<rparr> in
      case instrument_response e pair mc of
        None \<Rightarrow> (Inl HTTPError, st1)
      | Some data \<Rightarrow>
          (let inst = (case (case data of JObj d \<Rightarrow> dget d ''instrument'' | _ \<Rightarrow> data) of
                         JObj i \<Rightarrow> i | _ \<Rightarrow> []) in
           (Inr inst,
            st1\<lparr>instrument_cache := AList.update key inst (instrument_cache st1),
                instrument_cached_at := AList.update key (now e) (instrument_cached_at st1)\<rparr>)))"

definition get_instrument_details :: "state \<Rightarrow> env \<Rightarrow> string \<Rightarrow> string \<Rightarrow> dict \<times> state" where
  "get_instrument_details st e pair margin_currency =
     (let mc = upper margin_currency;
          key = (pair, mc);
          inst = (case map_of (instrument_cache st) key of None \<Rightarrow> [] | Some i \<Rightarrow> i);
          ts = (case map_of (instrument_cached_at st) key of None \<Rightarrow> 0 | Some t \<Rightarrow> t) in
      if inst = [] \<or> now e - ts > 60
      then (case fetch_instrument_details st e pair mc of
              (Inr fetched, st') \<Rightarrow> (fetched, st')
            | (Inl x, st') \<Rightarrow>
                ((case map_of (instrument_cache st') key of None \<Rightarrow> [] | Some i \<Rightarrow> i), st'))
      else (inst, st))"

section \<open>FX rate and price route (routes/trading.py)\<close>

text \<open>\<^verbatim>\<open>_get_usdt_inr_rate\<close>; its docstring: falls back to 90.0 if not available.\<close>

definition get_usdt_inr_rate :: "state \<Rightarrow> env \<Rightarrow> rat result \<times> state" where
  "get_usdt_inr_rate st e =
     (case (if map_of (ticker_cache st) ''USDTINR'' = None
                \<or> now e - ticker_cache_updated_at st > 30
            then refresh_ticker_cache_and_broadcast st e else (Inr (), st)) of
        (Inl x, st') \<Rightarrow> (Inl x, st')
      | (Inr u, st') \<Rightarrow>
          (Inr (case map_of (ticker_cache st') ''USDTINR'' of
                  None \<Rightarrow> 90
                | Some rate \<Rightarrow> if rate = 0 then 90 else rate),
           st'))"

text \<open>The body returned by \<^verbatim>\<open>GET /price/{symbol}\<close>.\<close>

record price_reply =
  r_symbol :: string
  r_price :: rat
  r_source :: string
  r_ts :: rat

definition get_price_http :: "state \<Rightarrow> env \<Rightarrow> string \<Rightarrow> price_reply result \<times> state" where
  "get_price_http st e symbol_arg =
     (let sy = upper symbol_arg in
      case map_of (ticker_cache st) sy of
        Some p \<Rightarrow>
          (Inr \<lparr>r_symbol = sy, r_price = p, r_source = ''cache'',
                r_ts = ticker_cache_updated_at st\<rparr>, st)
      | None \<Rightarrow>
          (case refresh_ticker_cache_and_broadcast st e of
             (Inl x, st') \<Rightarrow> (Inl x, st')
           | (Inr u, st') \<Rightarrow>
               (case map_of (ticker_cache st') sy of
                  None \<Rightarrow> (Inl (HTTPException 404 ''Symbol not found''), st')
                | Some p \<Rightarrow>
                    (Inr \<lparr>r_symbol = sy, r_price = p, r_source = ''cache'',
                          r_ts = ticker_cache_updated_at st'\<rparr>, st'))))"

section \<open>The in-memory order queue (routes/trading.py)\<close>

text \<open>
  The request model \<^verbatim>\<open>OrderIn\<close>. The patterns on \<^verbatim>\<open>side\<close> and \<^verbatim>\<open>order_type\<close> are the two
  datatypes; the bound on \<^verbatim>\<open>leverage\<close> is the only other constraint the model declares
  (\<^verbatim>\<open>qty: float\<close> carries none).
\<close>

record order_in =
  in_symbol :: string
  in_qty :: rat
  in_leverage :: int
  in_side :: side
  in_order_type :: order_type
  in_limit_price :: "rat option"
  in_margin :: "rat option"

definition OrderIn_valid :: "order_in \<Rightarrow> bool" where
  "OrderIn_valid oi = (1 \<le> in_leverage oi \<and> in_leverage oi \<le> 100)"

text \<open>\<^verbatim>\<open>order.model_dump()\<close> with the keys \<^verbatim>\<open>id\<close> and \<^verbatim>\<open>local_id\<close> set.\<close>

definition stored_order :: "order_in \<Rightarrow> int \<Rightarrow> order" where
  "stored_order oi n =
     \<lparr>symbol = in_symbol oi, qty = in_qty oi, leverage = in_leverage oi, side = in_side oi,
      order_type = in_order_type oi, limit_price = in_limit_price oi, margin = in_margin oi,
      oid = n, local_id = n, last_client_order_id = None\<rparr>"

text \<open>\<^verbatim>\<open>POST /orders\<close>: a body that fails the request model is answered 422 by the framework.\<close>

definition add_order :: "state \<Rightarrow> order_in \<Rightarrow> order result \<times> state" where
  "add_order st oi =
     (if \<not> OrderIn_valid oi then (Inl (HTTPException 422 ''Unprocessable Entity''), st)
      else if in_symbol oi = [] \<or> in_qty oi \<le> 0
      then (Inl (HTTPException 400 ''Invalid order data''), st)
      else
        (let new = stored_order oi (order_next_id st) in
         (Inr new, st\<lparr>order_next_id := order_next_id st + 1, orders := orders st @ [new]\<rparr>)))"

text \<open>The loop of \<^verbatim>\<open>add_orders_bulk\<close>.\<close>

fun bulk_loop :: "order_in list \<Rightarrow> order list \<Rightarrow> state \<Rightarrow> order list \<times> state" where
  "bulk_loop [] created st = (created, st)"
| "bulk_loop (oi # ois) created st =
     (let new = stored_order oi (order_next_id st) in
      bulk_loop ois (created @ [new])
        (st\<lparr>order_next_id := order_next_id st + 1, orders := orders st @ [new]\<rparr>))"

text \<open>\<^verbatim>\<open>POST /orders/bulk\<close>; \<^verbatim>\<open>BulkOrdersIn\<close> asks for at least one item.\<close>

definition add_orders_bulk :: "state \<Rightarrow> order_in list \<Rightarrow> order list result \<times> state" where
  "add_orders_bulk st ois =
     (if ois = [] \<or> \<not> list_all OrderIn_valid ois
      then (Inl (HTTPException 422 ''Unprocessable Entity''), st)
      else (case bulk_loop ois [] st of (created, st') \<Rightarrow> (Inr created, st')))"

section \<open>Order sizing and submission (routes/trading.py)\<close>

text \<open>Lines 544 and 545, on the upper-cased symbol.\<close>

definition derive_pair :: "string \<Rightarrow> string" where
  "derive_pair sy =
     ''B-'' @ remove_all ''USD'' (remove_all ''INR'' (remove_all ''USDT'' sy)) @ ''_USDT''"

text \<open>The dict \<^verbatim>\<open>place_order_on_coindcx\<close> returns, one constructor for each \<^verbatim>\<open>return\<close>.\<close>

datatype place_result =
    NoInrFuturesWallet
  | InstrumentNotActive string string string "string list"
  | TradeSizeTooSmall string string rat rat
  | TradeSizeTooLarge string string rat
  | EstimatedMarginExceedsBalance rat rat
  | Sent payload nat string

text \<open>Its keys \<^verbatim>\<open>error\<close>, \<^verbatim>\<open>sent\<close> and \<^verbatim>\<open>success\<close>.\<close>

fun error_code :: "place_result \<Rightarrow> string option" where
  "error_code NoInrFuturesWallet = Some ''no_inr_futures_wallet''"
| "error_code (InstrumentNotActive pair sy mc sample) = Some ''instrument_not_active''"
| "error_code (TradeSizeTooSmall pair sy mn inc) = Some ''trade_size_too_small_for_instrument''"
| "error_code (TradeSizeTooLarge pair sy mx) = Some ''trade_size_too_large_for_instrument''"
| "error_code (EstimatedMarginExceedsBalance m b) = Some ''estimated_margin_exceeds_balance''"
| "error_code (Sent p status body) = None"



text \<open>
  The local variables that are live at line 612, where the arithmetic starts: everything
  the function has read from the order, the caches and the exchange by then.
\<close>

record prepared =
  g_symbol :: string
  g_pair :: string
  g_side :: string
  g_api_order_type :: string
  g_timestamp_ms :: int
  g_client_order_id :: client_order_id
  g_price :: rat
  g_wallet_balance :: rat
  g_unit_contract_value :: rat
  g_quantity_increment :: rat
  g_min_quantity :: rat
  g_max_quantity :: rat
  g_leverage :: int
  g_trade_size_in_inr :: rat
  g_usdt_inr_rate :: rat

text \<open>Lines 593 to 598: six conversions, each of which may raise.\<close>

definition instrument_floats :: "env \<Rightarrow> dict \<Rightarrow> (rat \<times> rat \<times> rat \<times> rat) result" where
  "instrument_floats e inst =
     (case py_float e (py_or (dget inst ''unit_contract_value'') (JNum 1)) of
        Inl x \<Rightarrow> Inl x
      | Inr unit_contract_value \<Rightarrow>
     (case py_float e (py_or (dget inst ''quantity_increment'') (JNum 1)) of
        Inl x \<Rightarrow> Inl x
      | Inr quantity_increment \<Rightarrow>
     (case py_float e (py_or (dget inst ''min_quantity'') (JNum quantity_increment)) of
        Inl x \<Rightarrow> Inl x
      | Inr min_quantity \<Rightarrow>
     (case py_float e (py_or (dget inst ''max_quantity'') (JNum (10 ^ 18))) of
        Inl x \<Rightarrow> Inl x
      | Inr max_quantity \<Rightarrow>
     (case py_float e (py_or (dget inst ''max_leverage_long'') (JNum 0)) of
        Inl x \<Rightarrow> Inl x
      | Inr max_lev_long \<Rightarrow>
     (case py_float e (py_or (dget inst ''max_leverage_short'') (JNum max_lev_long)) of
        Inl x \<Rightarrow> Inl x
      | Inr max_lev_short \<Rightarrow>
          Inr (unit_contract_value, quantity_increment, min_quantity, max_quantity)))))))"

text \<open>
  Line 540, \<^verbatim>\<open>order.get("limit_price") or _ticker_cache.get(symbol, None)\<close>, with the test of
  line 541: \<open>None\<close> when the value is None or zero.
\<close>

definition order_price :: "state \<Rightarrow> string \<Rightarrow> order \<Rightarrow> rat option" where
  "order_price st sy ord =
     (case (case limit_price ord of
              Some lp \<Rightarrow> if lp \<noteq> 0 then Some lp else map_of (ticker_cache st) sy
            | None \<Rightarrow> map_of (ticker_cache st) sy) of
        None \<Rightarrow> None
      | Some p \<Rightarrow> if p = 0 then None else Some p)"

text \<open>
  Lines 539 to 610 of \<^verbatim>\<open>place_order_on_coindcx\<close>: the reads and the two early returns. The
  order comes back with the key \<^verbatim>\<open>last_client_order_id\<close> the function writes into it.
\<close>

definition prepare ::
  "state \<Rightarrow> env \<Rightarrow> order \<Rightarrow> (place_result + prepared) result \<times> order \<times> state" where
  "prepare st e ord =
     (let sy = upper (symbol ord) in
      case order_price st sy ord of
        None \<Rightarrow> (Inl (HTTPException 400 (''No price available for '' @ sy)), ord, st)
      | Some price \<Rightarrow>
        (let pair = derive_pair sy;
             timestamp_ms = py_int (now e * 1000);
             base_local = (if local_id ord \<noteq> 0 then Some (local_id ord)
                           else if oid ord \<noteq> 0 then Some (oid ord) else None);
             client_order_id = (base_local, timestamp_ms);
             ord1 = ord\<lparr>last_client_order_id := Some client_order_id\<rparr> in
         case get_inr_futures_wallet st e of
           (Inl x, st2) \<Rightarrow> (Inl x, ord1, st2)
         | (Inr None, st2) \<Rightarrow> (Inr (Inl NoInrFuturesWallet), ord1, st2)
         | (Inr (Some inr_wallet), st2) \<Rightarrow>
             if inr_wallet = [] then (Inr (Inl NoInrFuturesWallet), ord1, st2)
             else
             (case py_float e (py_or (dget inr_wallet ''balance'') (JNum 0)) of
                Inl x \<Rightarrow> (Inl x, ord1, st2)
              | Inr wallet_balance \<Rightarrow>
                  (case get_active_instruments st2 e ''INR'' of
                     (active_instruments, st3) \<Rightarrow>
                       if pair \<notin> set active_instruments
                       then (Inr (Inl (InstrumentNotActive pair sy ''INR''
                                         (take 30 (sort (remdups active_instruments))))),
                             ord1, st3)
                       else
                       (case get_instrument_details st3 e pair ''INR'' of
                          (inst, st4) \<Rightarrow>
                            (case instrument_floats e inst of
                               Inl x \<Rightarrow> (Inl x, ord1, st4)
                             | Inr (unit_contract_value, quantity_increment, min_quantity,
                                    max_quantity) \<Rightarrow>
                                 (case get_usdt_inr_rate st4 e of
                                    (Inl x, st5) \<Rightarrow> (Inl x, ord1, st5)
                                  | (Inr usdt_inr_rate, st5) \<Rightarrow>
                                      (Inr (Inr
                                         \<lparr>g_symbol = sy, g_pair = pair,
                                          g_side = (if side ord = BUY then ''buy'' else ''sell''),
                                          g_api_order_type =
                                            (if order_type ord = Limit then ''limit_order''
                                             else ''market_order''),
                                          g_timestamp_ms = timestamp_ms,
                                          g_client_order_id = client_order_id,
                                          g_price = price,
                                          g_wallet_balance = wallet_balance,
                                          g_unit_contract_value = unit_contract_value,
                                          g_quantity_increment = quantity_increment,
                                          g_min_quantity = min_quantity,
                                          g_max_quantity = max_quantity,
                                          g_leverage =
                                            (if leverage ord \<noteq> 0 then leverage ord else 1),
                                          g_trade_size_in_inr = qty ord,
                                          g_usdt_inr_rate = usdt_inr_rate\<rparr>),
                                       ord1, st5))))))))"

text \<open>Lines 612 to 652, one definition for each assignment.\<close>

definition inr_per_contract :: "prepared \<Rightarrow> rat" where
  "inr_per_contract g = g_price g * g_unit_contract_value g * g_usdt_inr_rate g"

definition contracts_raw :: "prepared \<Rightarrow> rat" where
  "contracts_raw g = g_trade_size_in_inr g / inr_per_contract g"

definition contracts_step :: "prepared \<Rightarrow> rat" where
  "contracts_step g =
     of_int \<lfloor>contracts_raw g / g_quantity_increment g\<rfloor> * g_quantity_increment g"

text \<open>
  \<^verbatim>\<open>float(f"{x:.8f}")\<close>: the decimal with eight fractional digits nearest to \<open>x\<close>, a tie going
  to the even last digit.
\<close>

definition round_half_even :: "rat \<Rightarrow> int" where
  "round_half_even y =
     (let f = \<lfloor>y\<rfloor>; d = y - of_int f in
      if d < 1 / 2 then f else if 1 / 2 < d then f + 1 else if even f then f else f + 1)"

definition fmt8 :: "rat \<Rightarrow> rat" where
  "fmt8 x = of_int (round_half_even (x * 10 ^ 8)) / 10 ^ 8"

definition total_quantity :: "prepared \<Rightarrow> rat" where
  "total_quantity g = fmt8 (contracts_step g)"

definition notional_usdt :: "prepared \<Rightarrow> rat" where
  "notional_usdt g = g_price g * g_unit_contract_value g * total_quantity g"

definition notional_inr :: "prepared \<Rightarrow> rat" where
  "notional_inr g = notional_usdt g * g_usdt_inr_rate g"

definition estimated_margin :: "prepared \<Rightarrow> rat" where
  "estimated_margin g =
     (if g_leverage g > 0 then notional_inr g / of_int (g_leverage g) else notional_inr g)"

definition make_payload :: "prepared \<Rightarrow> payload" where
  "make_payload g =
     \<lparr>p_timestamp = g_timestamp_ms g, p_pair = g_pair g, p_side = g_side g,
      p_order_type = g_api_order_type g, p_price = g_price g,
      p_total_quantity = total_quantity g, p_leverage = g_leverage g,
      p_time_in_force = ''good_till_cancel'', p_margin_currency_short_name = ''INR'',
      p_client_order_id = g_client_order_id g\<rparr>"

text \<open>
  Lines 612 to 729: the three size gates, the margin gate, then the signed POST. The two
  divisions raise on a zero divisor; signing raises when the secret is not set.
\<close>

definition size_and_send :: "prepared \<Rightarrow> state \<Rightarrow> env \<Rightarrow> place_result result \<times> state" where
  "size_and_send g st e =
     (if inr_per_contract g = 0 \<or> g_quantity_increment g = 0 then (Inl ZeroDivisionError, st)
      else if contracts_step g < g_min_quantity g
      then (Inr (TradeSizeTooSmall (g_pair g) (g_symbol g) (g_min_quantity g)
                   (g_quantity_increment g)), st)
      else if contracts_step g > g_max_quantity g
      then (Inr (TradeSizeTooLarge (g_pair g) (g_symbol g) (g_max_quantity g)), st)
      else if estimated_margin g > g_wallet_balance g
      then (Inr (EstimatedMarginExceedsBalance (estimated_margin g) (g_wallet_balance g)), st)
      else
        (case api_secret e of
           None \<Rightarrow> (Inl AttributeError, st)
         | Some secret \<Rightarrow>
             (let st1 = st\<lparr>net := net st @ [PostOrder (make_payload g)]\<rparr> in
              case order_response e (make_payload g) of
                None \<Rightarrow> (Inl HTTPError, st1)
              | Some (status, body) \<Rightarrow> (Inr (Sent (make_payload g) status body), st1))))"

definition place_order_on_coindcx ::
  "state \<Rightarrow> env \<Rightarrow> order \<Rightarrow> place_result result \<times> order \<times> state" where
  "place_order_on_coindcx st e ord =
     (case prepare st e ord of
        (Inl x, ord1, st1) \<Rightarrow> (Inl x, ord1, st1)
      | (Inr (Inl early), ord1, st1) \<Rightarrow> (Inr early, ord1, st1)
      | (Inr (Inr g), ord1, st1) \<Rightarrow>
          (case size_and_send g st1 e of (r, st2) \<Rightarrow> (r, ord1, st2)))"

section \<open>Batch execution (routes/trading.py)\<close>






section \<open>The price broadcaster (services/price_broadcaster.py)\<close>

text \<open>The attributes of a \<^verbatim>\<open>PriceBroadcaster\<close>; \<open>pushed\<close> records the messages sent so far.\<close>

record pb_state =
  tickers :: "(string \<times> rat) list"
  symbols_cache :: "string list"
  running :: bool
  subscriptions :: "(conn \<times> string list) list"
  pushed :: "(conn \<times> string \<times> rat) list"

text \<open>The parsing loop of \<^verbatim>\<open>_poll_loop\<close>; an exception leaves it for the handler of the cycle.\<close>

fun parse_items ::
  "env \<Rightarrow> json list \<Rightarrow> (string \<times> rat) list \<Rightarrow> string list
     \<Rightarrow> ((string \<times> rat) list \<times> string list) result" where
  "parse_items e [] new_tickers symbols = Inr (new_tickers, symbols)"
| "parse_items e (JObj item # items) new_tickers symbols =
     (let m = dget item ''market''; lp = dget item ''last_price'' in
      if truthy m \<and> lp \<noteq> JNull
      then (case m of
              JStr ms \<Rightarrow>
                (case (case py_float e lp of
                         Inr x \<Rightarrow> Inr x
                       | Inl _ \<Rightarrow> py_float e (JStr (remove_all '','' (py_str e lp)))) of
                   Inl x \<Rightarrow> Inl x
                 | Inr price_val \<Rightarrow>
                     parse_items e items (AList.update (upper ms) price_val new_tickers)
                       (symbols @ [upper ms]))
            | _ \<Rightarrow> Inl AttributeError)
      else parse_items e items new_tickers symbols)"
| "parse_items e (_ # items) new_tickers symbols = Inl AttributeError"

text \<open>\<^verbatim>\<open>_push_updates\<close>: the sends to one connection, \<open>False\<close> when one of them raised.\<close>

fun push_subscribed :: "env \<Rightarrow> conn \<Rightarrow> string list \<Rightarrow> pb_state \<Rightarrow> bool \<times> pb_state" where
  "push_subscribed e ws [] ps = (True, ps)"
| "push_subscribed e ws (s # ss) ps =
     (case map_of (tickers ps) s of
        None \<Rightarrow> push_subscribed e ws ss ps
      | Some price \<Rightarrow>
          if send_ok e ws
          then push_subscribed e ws ss (ps\<lparr>pushed := pushed ps @ [(ws, s, price)]\<rparr>)
          else (False, ps))"

text \<open>Its loop over the connections, collecting \<^verbatim>\<open>to_remove\<close>.\<close>

fun push_conns ::
  "env \<Rightarrow> (conn \<times> string list) list \<Rightarrow> conn list \<Rightarrow> pb_state \<Rightarrow> conn list \<times> pb_state" where
  "push_conns e [] to_remove ps = (to_remove, ps)"
| "push_conns e ((ws, subs) # rest) to_remove ps =
     (case push_subscribed e ws subs ps of
        (True, ps') \<Rightarrow> push_conns e rest to_remove ps'
      | (False, ps') \<Rightarrow> push_conns e rest (to_remove @ [ws]) ps')"

definition push_updates :: "pb_state \<Rightarrow> env \<Rightarrow> pb_state" where
  "push_updates ps e =
     (case push_conns e (subscriptions ps) [] ps of
        (to_remove, ps') \<Rightarrow>
          ps'\<lparr>subscriptions := filter (\<lambda>p. fst p \<notin> set to_remove) (subscriptions ps')\<rparr>)"

text \<open>One pass of the \<^verbatim>\<open>try\<close> block of \<^verbatim>\<open>_poll_loop\<close>, with its \<^verbatim>\<open>except Exception\<close>.\<close>

definition poll_cycle :: "pb_state \<Rightarrow> env \<Rightarrow> pb_state" where
  "poll_cycle ps e =
     (case tickers_response e of
        None \<Rightarrow> ps
      | Some data \<Rightarrow>
          (case py_iter data of
             Inl x \<Rightarrow> ps
           | Inr items \<Rightarrow>
               (case parse_items e items [] [] of
                  Inl x \<Rightarrow> ps
                | Inr (new_tickers, symbols) \<Rightarrow>
                    push_updates (ps\<lparr>tickers := new_tickers, symbols_cache := symbols\<rparr>) e)))"

text \<open>
  \<^verbatim>\<open>_poll_loop\<close>, on the worlds of the cycles it gets to start; when they are used up the
  task is cancelled at its sleep.
\<close>

datatype pb_exit = PbCancelled | PbStopped

fun poll_loop :: "pb_state \<Rightarrow> env list \<Rightarrow> pb_exit \<times> pb_state" where
  "poll_loop ps [] = (if running ps then (PbCancelled, ps) else (PbStopped, ps))"
| "poll_loop ps (e # es) =
     (if running ps then poll_loop (poll_cycle ps e) es else (PbStopped, ps))"

section \<open>Persisted orders of a user (routes/user_orders.py)\<close>

datatype order_status = PENDING | QUEUED | EXECUTED | FAILED | CANCELLED

text \<open>A row of the table \<^verbatim>\<open>orders\<close> (models/database.py); times are seconds.\<close>

record db_order =
  db_id :: int
  db_user_id :: int
  db_symbol :: string
  db_side :: side
  db_order_type :: order_type
  db_quantity :: rat
  db_leverage :: int
  db_limit_price :: "rat option"
  db_margin :: "rat option"
  db_status :: order_status
  db_client_order_id :: "string option"
  db_exchange_order_id :: "string option"
  db_executed_price :: "rat option"
  db_executed_quantity :: "rat option"
  db_fees :: rat
  db_error_message :: "string option"
  db_retry_count :: int
  db_created_at :: rat
  db_updated_at :: rat
  db_executed_at :: "rat option"

record user =
  u_id :: int
  u_max_leverage :: int

text \<open>The request model \<^verbatim>\<open>OrderUpdate\<close> and the bounds its fields declare.\<close>

record order_update =
  up_symbol :: "string option"
  up_side :: "side option"
  up_order_type :: "order_type option"
  up_quantity :: "rat option"
  up_leverage :: "int option"
  up_limit_price :: "rat option"
  up_margin :: "rat option"
  up_status :: "string option"

definition OrderUpdate_valid :: "order_update \<Rightarrow> bool" where
  "OrderUpdate_valid u =
     ((case up_quantity u of None \<Rightarrow> True | Some q \<Rightarrow> 0 < q)
      \<and> (case up_leverage u of None \<Rightarrow> True | Some l \<Rightarrow> 1 \<le> l \<and> l \<le> 100)
      \<and> (case up_limit_price u of None \<Rightarrow> True | Some p \<Rightarrow> 0 < p))"

text \<open>The query \<^verbatim>\<open>filter(Order.id == order_id, Order.user_id == current_user.id).first()\<close>.\<close>

definition query_order :: "db_order list \<Rightarrow> user \<Rightarrow> int \<Rightarrow> db_order option" where
  "query_order db u order_id =
     find (\<lambda>r. db_id r = order_id \<and> db_user_id r = u_id u) db"

text \<open>The field assignments of \<^verbatim>\<open>update_order\<close>: a field the request leaves out is kept.\<close>

definition apply_update :: "db_order \<Rightarrow> order_update \<Rightarrow> rat \<Rightarrow> db_order" where
  "apply_update r u t =
     r\<lparr>db_symbol := (case up_symbol u of None \<Rightarrow> db_symbol r | Some s \<Rightarrow> upper s),
       db_side := (case up_side u of None \<Rightarrow> db_side r | Some s \<Rightarrow> s),
       db_order_type := (case up_order_type u of None \<Rightarrow> db_order_type r | Some k \<Rightarrow> k),
       db_quantity := (case up_quantity u of None \<Rightarrow> db_quantity r | Some q \<Rightarrow> q),
       db_leverage := (case up_leverage u of None \<Rightarrow> db_leverage r | Some l \<Rightarrow> l),
       db_limit_price := (case up_limit_price u of None \<Rightarrow> db_limit_price r | Some p \<Rightarrow> Some p),
       db_margin := (case up_margin u of None \<Rightarrow> db_margin r | Some m \<Rightarrow> Some m),
       db_updated_at := t\<rparr>"

text \<open>
  \<^verbatim>\<open>PUT /{order_id}\<close> at time \<open>t\<close>. An exception leaves the session without a commit, so
  the table is as before; the commit writes the row under its primary key.
\<close>

definition update_order ::
  "db_order list \<Rightarrow> user \<Rightarrow> int \<Rightarrow> order_update \<Rightarrow> rat \<Rightarrow> db_order result \<times> db_order list" where
  "update_order db u order_id upd t =
     (if \<not> OrderUpdate_valid upd then (Inl (HTTPException 422 ''Unprocessable Entity''), db)
      else
        (case query_order db u order_id of
           None \<Rightarrow> (Inl (HTTPException 404 ''Order not found''), db)
         | Some r \<Rightarrow>
             if db_status r \<noteq> QUEUED
             then (Inl (HTTPException 400 ''Can only update queued orders''), db)
             else if (case up_leverage upd of None \<Rightarrow> False | Some l \<Rightarrow> l > u_max_leverage u)
             then (Inl (HTTPException 400 ''Leverage exceeds maximum''), db)
             else
               (let r' = apply_update r upd t in
                (Inr r', map (\<lambda>x. if db_id x = db_id r then r' else x) db))))"

text \<open>\<^verbatim>\<open>DELETE /{order_id}\<close>; the reply carries the id of the deleted order.\<close>

definition delete_order :: "db_order list \<Rightarrow> user \<Rightarrow> int \<Rightarrow> int result \<times> db_order list" where
  "delete_order db u order_id =
     (case query_order db u order_id of
        None \<Rightarrow> (Inl (HTTPException 404 ''Order not found''), db)
      | Some r \<Rightarrow>
          if db_status r \<noteq> QUEUED
          then (Inl (HTTPException 400 ''Can only delete queued orders''), db)
          else (Inr order_id, filter (\<lambda>x. db_id x \<noteq> db_id r) db))"

section \<open>Observations on a run\<close>

text \<open>The order submissions among the requests performed so far.\<close>

fun is_post :: "event \<Rightarrow> bool" where
  "is_post (PostOrder p) = True"
| "is_post _ = False"

definition posts :: "state \<Rightarrow> event list" where
  "posts st = filter is_post (net st)"

text \<open>What none of the read helpers touches: the queue, its counter, the submissions.\<close>

definition frame :: "state \<Rightarrow> state \<Rightarrow> bool" where
  "frame st st' =
     (orders st' = orders st \<and> order_next_id st' = order_next_id st \<and> posts st' = posts st)"

section \<open>Example inputs\<close>

text \<open>The module variables as lines 59 to 79 initialise them.\<close>

definition init_state :: state where
  "init_state =
     \<lparr>ticker_cache = [], ticker_cache_updated_at = 0, orders = [], order_next_id = 1,
      futures_wallets_cache = None, futures_wallets_cached_at = 0,
      active_instruments_cache = [], active_instruments_cached_at = [],
      instrument_cache = [], instrument_cached_at = [],
      ws_connections = [], ws_subscriptions = [], net = []\<rparr>"

text \<open>
  A world at time 1001 with credentials set, every GET failing, the order endpoint
  answering 200 and every websocket accepting messages.
\<close>

definition ex_env :: env where
  "ex_env =
     \<lparr>now = 1001, api_key = Some ''key'', api_secret = Some ''secret'',
      tickers_response = None, wallets_response = None,
      active_instruments_response = (\<lambda>mc. None),
      instrument_response = (\<lambda>pair mc. None),
      order_response = (\<lambda>p. Some (200, ''ok'')),
      send_ok = (\<lambda>ws. True), float_of_str = (\<lambda>s. None), str_of = (\<lambda>j. [])\<rparr>"

text \<open>The scenario of the specification: 10000 INR at 60000 USDT, leverage 10.\<close>

definition ex_order :: order where
  "ex_order =
     \<lparr>symbol = ''btcusdt'', qty = 10000, leverage = 10, side = BUY, order_type = Limit,
      limit_price = Some 60000, margin = None, oid = 1, local_id = 1,
      last_client_order_id = None\<rparr>"

definition ex_instrument :: "rat \<Rightarrow> rat \<Rightarrow> dict" where
  "ex_instrument ucv inc =
     [(''unit_contract_value'', JNum ucv), (''quantity_increment'', JNum inc),
      (''min_quantity'', JNum inc), (''max_quantity'', JNum 100)]"

text \<open>A state whose caches were all filled at time 1000, with one queued order.\<close>

definition ex_state :: "order \<Rightarrow> rat \<Rightarrow> dict \<Rightarrow> state" where
  "ex_state ord balance inst =
     init_state
       \<lparr>ticker_cache := [(''BTCUSDT'', 60000), (''USDTINR'', 90)],
        ticker_cache_updated_at := 1000,
        orders := [ord], order_next_id := 2,
        futures_wallets_cache :=
          Some [JObj [(''currency_short_name'', JStr ''INR''), (''balance'', JNum balance)]],
        futures_wallets_cached_at := 1000,
        active_instruments_cache := [(''INR'', [''B-BTC_USDT''])],
        active_instruments_cached_at := [(''INR'', 1000)],
        instrument_cache := [((''B-BTC_USDT'', ''INR''), inst)],
        instrument_cached_at := [((''B-BTC_USDT'', ''INR''), 1000)]\<rparr>"

definition ok_state :: state where
  "ok_state = ex_state ex_order 5000 (ex_instrument (1 / 1000) (1 / 1000))"

definition poor_state :: state where
  "poor_state = ex_state ex_order 500 (ex_instrument (1 / 1000) (1 / 1000))"

text \<open>What the function has read at line 612 in these two states, but for the balance.\<close>

definition ex_prepared :: "rat \<Rightarrow> prepared" where
  "ex_prepared balance =
     \<lparr>g_symbol = ''BTCUSDT'', g_pair = ''B-BTC_USDT'', g_side = ''buy'',
      g_api_order_type = ''limit_order'', g_timestamp_ms = 1001000,
      g_client_order_id = (Some 1, 1001000), g_price = 60000, g_wallet_balance = balance,
      g_unit_contract_value = 1 / 1000, g_quantity_increment = 1 / 1000,
      g_min_quantity = 1 / 1000, g_max_quantity = 100, g_leverage = 10,
      g_trade_size_in_inr = 10000, g_usdt_inr_rate = 90\<rparr>"




text \<open>The pair of the order is not among the active instruments.\<close>

definition inactive_state :: state where
  "inactive_state = ok_state\<lparr>active_instruments_cache := [(''INR'', [''B-ETH_USDT''])]\<rparr>"

text \<open>A process started without credentials, one order queued, nothing cached.\<close>

definition nocred_env :: env where
  "nocred_env = ex_env\<lparr>api_key := None, api_secret := None\<rparr>"

definition fresh_state :: state where
  "fresh_state = init_state\<lparr>orders := [ex_order], order_next_id := 2\<rparr>"


text \<open>A request with a negative notional; the request model accepts it.\<close>

definition bad_order_in :: order_in where
  "bad_order_in =
     \<lparr>in_symbol = ''BTCUSDT'', in_qty = - 5, in_leverage = 1, in_side = BUY,
      in_order_type = Market, in_limit_price = None, in_margin = None\<rparr>"

text \<open>One websocket, number 7, subscribed to a cached symbol.\<close>

definition ws_state :: state where
  "ws_state =
     init_state
       \<lparr>ticker_cache := [(''BTCUSDT'', 60000)], ticker_cache_updated_at := 1000,
        ws_connections := [7], ws_subscriptions := [(7, [''BTCUSDT''])]\<rparr>"

definition pb_ws_state :: pb_state where
  "pb_ws_state =
     \<lparr>tickers = [(''BTCUSDT'', 60000)], symbols_cache = [''BTCUSDT''], running = True,
      subscriptions = [(7, [''BTCUSDT''])], pushed = []\<rparr>"

text \<open>Worlds in which the ticker endpoint answers; in the second every websocket send raises.\<close>

definition tick_env :: env where
  "tick_env =
     ex_env\<lparr>tickers_response :=
              Some (JArr [JObj [(''market'', JStr ''BTCUSDT''), (''last_price'', JNum 61000)]])\<rparr>"

definition dead_ws_env :: env where
  "dead_ws_env = tick_env\<lparr>send_ok := (\<lambda>ws. False)\<rparr>"

definition empty_tick_env :: env where
  "empty_tick_env = ex_env\<lparr>tickers_response := Some (JArr [])\<rparr>"

text \<open>The clock well past every time-to-live.\<close>

definition late_env :: env where
  "late_env = ex_env\<lparr>now := 5000\<rparr>"

text \<open>A user, a queued row of that user, the same row once executed, and two updates.\<close>

definition ex_user :: user where
  "ex_user = \<lparr>u_id = 10, u_max_leverage = 20\<rparr>"

definition queued_row :: db_order where
  "queued_row =
     \<lparr>db_id = 1, db_user_id = 10, db_symbol = ''BTCUSDT'', db_side = BUY,
      db_order_type = Market, db_quantity = 100, db_leverage = 5, db_limit_price = None,
      db_margin = None, db_status = QUEUED, db_client_order_id = None,
      db_exchange_order_id = None, db_executed_price = None, db_executed_quantity = None,
      db_fees = 0, db_error_message = None, db_retry_count = 0, db_created_at = 50,
      db_updated_at = 50, db_executed_at = None\<rparr>"

definition executed_row :: db_order where
  "executed_row = queued_row\<lparr>db_status := EXECUTED, db_executed_at := Some 60\<rparr>"

definition ex_update :: order_update where
  "ex_update =
     \<lparr>up_symbol = Some ''ethusdt'', up_side = None, up_order_type = None,
      up_quantity = Some 200, up_leverage = Some 10, up_limit_price = None,
      up_margin = None, up_status = None\<rparr>"

definition greedy_update :: order_update where
  "greedy_update = ex_update\<lparr>up_leverage := Some 50\<rparr>"




section \<open>What the read helpers leave alone\<close>

lemma frame_refl: "frame st st" by (simp add: frame_def)
lemma frame_trans: "frame a b \<Longrightarrow> frame b c \<Longrightarrow> frame a c" by (simp add: frame_def)

lemma send_subscribed_frame: "frame st (snd (send_subscribed e ws ss st))"
proof (induction ss arbitrary: st)
  case Nil show ?case by (simp add: frame_def)
next
  case (Cons s ss)
  have "frame st (st\<lparr>net := net st @ [WsSend ws s p]\<rparr>)" for p
    by (simp add: frame_def posts_def)
  then show ?case using Cons[of "st\<lparr>net := net st @ [WsSend ws s _]\<rparr>"] Cons[of st]
    by (auto split: option.splits simp: frame_refl intro: frame_trans)
qed

lemma send_subscribed_cache: "ticker_cache (snd (send_subscribed e ws ss st)) = ticker_cache st
  \<and> ticker_cache_updated_at (snd (send_subscribed e ws ss st)) = ticker_cache_updated_at st"
  by (induction ss arbitrary: st) (auto split: option.splits)

lemma broadcast_conns_frame: "frame st (snd (broadcast_conns e wss st))"
proof (induction wss arbitrary: st)
  case Nil show ?case by (simp add: frame_refl)
next
  case (Cons ws wss)
  obtain r st' where s: "send_subscribed e ws (case map_of (ws_subscriptions st) ws of None \<Rightarrow> [] | Some subs \<Rightarrow> subs) st = (r, st')"
    by (cases "send_subscribed e ws (case map_of (ws_subscriptions st) ws of None \<Rightarrow> [] | Some subs \<Rightarrow> subs) st") 
  have f: "frame st st'" using send_subscribed_frame[of st e ws "(case map_of (ws_subscriptions st) ws of None \<Rightarrow> [] | Some subs \<Rightarrow> subs)"] s by simp
  show ?case using s f Cons[of st'] by (auto split: sum.splits intro: frame_trans)
qed

lemma broadcast_conns_cache: "ticker_cache (snd (broadcast_conns e wss st)) = ticker_cache st
  \<and> ticker_cache_updated_at (snd (broadcast_conns e wss st)) = ticker_cache_updated_at st"
proof (induction wss arbitrary: st)
  case Nil show ?case by simp
next
  case (Cons ws wss)
  obtain r st' where s: "send_subscribed e ws (case map_of (ws_subscriptions st) ws of None \<Rightarrow> [] | Some subs \<Rightarrow> subs) st = (r, st')"
    by (cases "send_subscribed e ws (case map_of (ws_subscriptions st) ws of None \<Rightarrow> [] | Some subs \<Rightarrow> subs) st") 
  have f: "ticker_cache st' = ticker_cache st \<and> ticker_cache_updated_at st' = ticker_cache_updated_at st" using send_subscribed_cache[of e ws "(case map_of (ws_subscriptions st) ws of None \<Rightarrow> [] | Some subs \<Rightarrow> subs)" st] s by simp
  show ?case using s f Cons[of st'] by (auto split: sum.splits)
qed

lemma broadcast_frame: "frame st (snd (broadcast_price_updates st e))"
  by (simp add: broadcast_price_updates_def frame_refl broadcast_conns_frame)

lemma broadcast_cache: "ticker_cache (snd (broadcast_price_updates st e)) = ticker_cache st
  \<and> ticker_cache_updated_at (snd (broadcast_price_updates st e)) = ticker_cache_updated_at st"
  by (simp add: broadcast_price_updates_def broadcast_conns_cache)

lemma original_refresh_frame: "frame st (original_refresh st e)"
  by (simp add: original_refresh_def frame_def posts_def Let_def split: option.splits)

lemma refresh_frame: "frame st (snd (refresh_ticker_cache_and_broadcast st e))"
  unfolding refresh_ticker_cache_and_broadcast_def
  by (rule frame_trans[OF original_refresh_frame broadcast_frame])

lemma fetch_wallets_frame: "frame st (snd (fetch_futures_wallets st e))"
  by (simp add: fetch_futures_wallets_def frame_def posts_def Let_def split: option.splits)

lemma get_wallet_frame: "frame st (snd (get_inr_futures_wallet st e))"
  using fetch_wallets_frame[of st e] frame_refl[of st]
  unfolding get_inr_futures_wallet_def
  by (auto split: prod.splits sum.splits if_splits)

lemma fetch_active_frame: "frame st (snd (fetch_active_instruments st e mc))"
  by (simp add: fetch_active_instruments_def frame_def posts_def Let_def split: option.splits sum.splits)

lemma get_active_frame: "frame st (snd (get_active_instruments st e mc))"
  using fetch_active_frame[of st e "upper mc"]
  by (auto simp: get_active_instruments_def Let_def frame_refl split: prod.splits sum.splits)

lemma fetch_instrument_frame: "frame st (snd (fetch_instrument_details st e pair mc))"
  by (simp add: fetch_instrument_details_def frame_def posts_def Let_def split: option.splits sum.splits)

lemma get_instrument_frame: "frame st (snd (get_instrument_details st e pair mc))"
  using fetch_instrument_frame[of st e pair "upper mc"]
  by (auto simp: get_instrument_details_def Let_def frame_refl split: prod.splits sum.splits)

lemma get_rate_frame: "frame st (snd (get_usdt_inr_rate st e))"
  using refresh_frame[of st e]
  by (auto simp: get_usdt_inr_rate_def frame_refl split: prod.splits sum.splits)

lemma get_wallet_frameD: "get_inr_futures_wallet st e = (r, st') \<Longrightarrow> frame st st'"
  using get_wallet_frame[of st e] by simp

lemma get_active_frameD: "get_active_instruments st e mc = (r, st') \<Longrightarrow> frame st st'"
  using get_active_frame[of st e mc] by simp

lemma get_instrument_frameD: "get_instrument_details st e pair mc = (r, st') \<Longrightarrow> frame st st'"
  using get_instrument_frame[of st e pair mc] by simp

lemma get_rate_frameD: "get_usdt_inr_rate st e = (r, st') \<Longrightarrow> frame st st'"
  using get_rate_frame[of st e] by simp

lemma prepare_frame:
  assumes "prepare st e ord = (r, ord1, st1)"
  shows "frame st st1"
  using assms unfolding prepare_def Let_def
  by (auto split: option.splits prod.splits sum.splits if_splits
           dest!: get_wallet_frameD get_active_frameD get_instrument_frameD get_rate_frameD
           simp: frame_def)


lemma find_inr_wallet_nonempty: "find_inr_wallet ws = Inr (Some w) \<Longrightarrow> w \<noteq> []"
proof (induction ws rule: find_inr_wallet.induct)
  case (2 w ws)
  then show ?case
    by (auto simp: py_or_def dget_def upper_def split: json.splits if_splits)
qed simp_all

lemma get_wallet_nonempty: "get_inr_futures_wallet st e = (Inr (Some w), st') \<Longrightarrow> w \<noteq> []"
  unfolding get_inr_futures_wallet_def
  by (auto split: prod.splits sum.splits if_splits dest: find_inr_wallet_nonempty)







section \<open>Order sizing\<close>




section \<open>Margin gate\<close>

text \<open>
  C2. When the function gets to compute \<open>estimated_margin\<close> (the reads succeeded and the size
  gates passed) and it exceeds the wallet balance, the function returns the error
  \<open>estimated_margin_exceeds_balance\<close> and no order has been posted to the exchange.
\<close>

theorem margin_gate_rejects_before_post:
  assumes "prepare st e ord = (Inr (Inr g), ord1, st1)"
    and "inr_per_contract g \<noteq> 0" and "g_quantity_increment g \<noteq> 0"
    and "g_min_quantity g \<le> contracts_step g" and "contracts_step g \<le> g_max_quantity g"
    and "estimated_margin g > g_wallet_balance g"
  shows "place_order_on_coindcx st e ord =
           (Inr (EstimatedMarginExceedsBalance (estimated_margin g) (g_wallet_balance g)),
            ord1, st1)
         \<and> error_code (EstimatedMarginExceedsBalance (estimated_margin g) (g_wallet_balance g))
             = Some ''estimated_margin_exceeds_balance''
         \<and> posts st1 = posts st"
proof -
  have "size_and_send g st1 e =
          (Inr (EstimatedMarginExceedsBalance (estimated_margin g) (g_wallet_balance g)), st1)"
    using assms(2-6) by (simp add: size_and_send_def)
  moreover have "posts st1 = posts st"
    using prepare_frame[OF assms(1)] by (simp add: frame_def)
  ultimately show ?thesis
    using assms(1) by (simp add: place_order_on_coindcx_def)
qed

theorem margin_gate_witness:
  "prepare poor_state ex_env ex_order
     = (Inr (Inr (ex_prepared 500)), ex_order\<lparr>last_client_order_id := Some (Some 1, 1001000)\<rparr>,
        poor_state)
   \<and> estimated_margin (ex_prepared 500) = 49977 / 50
   \<and> g_wallet_balance (ex_prepared 500) = 500
   \<and> place_order_on_coindcx poor_state ex_env ex_order
     = (Inr (EstimatedMarginExceedsBalance (estimated_margin (ex_prepared 500))
               (g_wallet_balance (ex_prepared 500))),
        ex_order\<lparr>last_client_order_id := Some (Some 1, 1001000)\<rparr>, poor_state)
   \<and> posts poor_state = []"
proof -
  have p: "prepare poor_state ex_env ex_order
     = (Inr (Inr (ex_prepared 500)), ex_order\<lparr>last_client_order_id := Some (Some 1, 1001000)\<rparr>,
        poor_state)"
    by code_simp
  have h1: "inr_per_contract (ex_prepared 500) \<noteq> 0" by code_simp
  have h2: "g_quantity_increment (ex_prepared 500) \<noteq> 0" by code_simp
  have h3: "g_min_quantity (ex_prepared 500) \<le> contracts_step (ex_prepared 500)" by code_simp
  have h4: "contracts_step (ex_prepared 500) \<le> g_max_quantity (ex_prepared 500)" by code_simp
  have m: "estimated_margin (ex_prepared 500) = 49977 / 50" by code_simp
  have b: "g_wallet_balance (ex_prepared 500) = 500" by code_simp
  have h5: "estimated_margin (ex_prepared 500) > g_wallet_balance (ex_prepared 500)"
    unfolding m b by simp
  have e: "posts poor_state = []" by code_simp
  from margin_gate_rejects_before_post[OF p h1 h2 h3 h4 h5] p m b e
  show ?thesis by simp
qed

section \<open>Inactive instrument gate\<close>

text \<open>
  C6, as amended. For an order that has a price and for which the INR futures wallet is
  found with a readable balance, if the derived pair is not in the active instrument set
  the function returns \<open>instrument_not_active\<close> from its reading phase, naming the derived
  pair, in the state the active-instrument lookup left: no instrument details are fetched,
  no quantity is computed, nothing is posted.
\<close>

theorem inactive_instrument_gate:
  assumes "order_price st (upper (symbol ord)) ord = Some price"
    and "get_inr_futures_wallet st e = (Inr (Some w), st2)"
    and "py_float e (py_or (dget w ''balance'') (JNum 0)) = Inr b"
    and "get_active_instruments st2 e ''INR'' = (active, st3)"
    and "derive_pair (upper (symbol ord)) \<notin> set active"
  shows "\<exists>r c. error_code r = Some ''instrument_not_active''
           \<and> r = InstrumentNotActive (derive_pair (upper (symbol ord))) (upper (symbol ord))
                   ''INR'' (take 30 (sort (remdups active)))
           \<and> prepare st e ord = (Inr (Inl r), ord\<lparr>last_client_order_id := Some c\<rparr>, st3)
           \<and> place_order_on_coindcx st e ord =
               (Inr r, ord\<lparr>last_client_order_id := Some c\<rparr>, st3)
           \<and> posts st3 = posts st"
proof -
  have w: "w \<noteq> []" by (rule get_wallet_nonempty[OF assms(2)])
  let ?r = "InstrumentNotActive (derive_pair (upper (symbol ord))) (upper (symbol ord))
              ''INR'' (take 30 (sort (remdups active)))"
  let ?c = "((if local_id ord \<noteq> 0 then Some (local_id ord)
              else if oid ord \<noteq> 0 then Some (oid ord) else None), py_int (now e * 1000))"
  have prep: "prepare st e ord = (Inr (Inl ?r), ord\<lparr>last_client_order_id := Some ?c\<rparr>, st3)"
    using assms w by (simp add: prepare_def Let_def)
  have "posts st3 = posts st"
    using prepare_frame[OF prep] by (simp add: frame_def)
  with prep show ?thesis
    by (auto simp: place_order_on_coindcx_def)
qed

theorem inactive_instrument_witness:
  "order_price inactive_state (upper (symbol ex_order)) ex_order = Some 60000
   \<and> derive_pair (upper (symbol ex_order)) = ''B-BTC_USDT''
   \<and> get_active_instruments inactive_state ex_env ''INR'' = ([''B-ETH_USDT''], inactive_state)
   \<and> place_order_on_coindcx inactive_state ex_env ex_order
       = (Inr (InstrumentNotActive ''B-BTC_USDT'' ''BTCUSDT'' ''INR'' [''B-ETH_USDT'']),
          ex_order\<lparr>last_client_order_id := Some (Some 1, 1001000)\<rparr>, inactive_state)"
proof -
  have h1: "order_price inactive_state (upper (symbol ex_order)) ex_order = Some 60000"
    by code_simp
  have h2: "get_inr_futures_wallet inactive_state ex_env
      = (Inr (Some [(''currency_short_name'', JStr ''INR''), (''balance'', JNum 5000)]),
         inactive_state)"
    by code_simp
  have h3: "py_float ex_env (py_or (dget [(''currency_short_name'', JStr ''INR''),
               (''balance'', JNum 5000)] ''balance'') (JNum 0)) = Inr 5000"
    by code_simp
  have h4: "get_active_instruments inactive_state ex_env ''INR''
      = ([''B-ETH_USDT''], inactive_state)"
    by code_simp
  have pr: "derive_pair (upper (symbol ex_order)) = ''B-BTC_USDT''" by code_simp
  have h5: "derive_pair (upper (symbol ex_order)) \<notin> set [''B-ETH_USDT'']"
    unfolding pr by simp
  have sy: "upper (symbol ex_order) = ''BTCUSDT''" by code_simp
  have srt: "take 30 (sort (remdups [''B-ETH_USDT''])) = [''B-ETH_USDT'']" by code_simp
  have c: "ex_order\<lparr>last_client_order_id := Some c\<rparr>
             = ex_order\<lparr>last_client_order_id := Some (Some 1, 1001000)\<rparr>
           \<Longrightarrow> c = (Some 1, 1001000)" for c
    by (simp add: ex_order_def)
  have direct: "fst (snd (place_order_on_coindcx inactive_state ex_env ex_order))
      = ex_order\<lparr>last_client_order_id := Some (Some 1, 1001000)\<rparr>"
    by code_simp
  from inactive_instrument_gate[OF h1 h2 h3 h4 h5] obtain r c where
    r: "r = InstrumentNotActive (derive_pair (upper (symbol ex_order))) (upper (symbol ex_order))
             ''INR'' (take 30 (sort (remdups [''B-ETH_USDT''])))" and
    run: "place_order_on_coindcx inactive_state ex_env ex_order
            = (Inr r, ex_order\<lparr>last_client_order_id := Some c\<rparr>, inactive_state)"
    by blast
  from run direct have "ex_order\<lparr>last_client_order_id := Some c\<rparr>
      = ex_order\<lparr>last_client_order_id := Some (Some 1, 1001000)\<rparr>" by simp
  with run r h1 h4 pr sy srt show ?thesis by simp
qed

text \<open>
  Without credentials no wallet is fetched, and the answer for an order whose pair is not
  active is \<open>no_inr_futures_wallet\<close>: the wallet gate comes first.
\<close>

theorem wallet_gate_first_counterexample:
  "order_price fresh_state (upper (symbol ex_order)) ex_order = Some 60000
   \<and> derive_pair (upper (symbol ex_order)) = ''B-BTC_USDT''
   \<and> fst (get_active_instruments fresh_state nocred_env ''INR'') = []
   \<and> place_order_on_coindcx fresh_state nocred_env ex_order
       = (Inr NoInrFuturesWallet, ex_order\<lparr>last_client_order_id := Some (Some 1, 1001000)\<rparr>,
          fresh_state)
   \<and> error_code NoInrFuturesWallet = Some ''no_inr_futures_wallet''"
  by code_simp

section \<open>FX rate fallback\<close>

text \<open>When no websocket send raises, the refresh returns, and so does the FX helper.\<close>

lemma send_subscribed_returns:
  "\<forall>c. send_ok e c \<Longrightarrow> fst (send_subscribed e ws ss st) = Inr ()"
  by (induction ss arbitrary: st) (auto split: option.splits)

lemma broadcast_conns_returns:
  assumes "\<forall>c. send_ok e c"
  shows "fst (broadcast_conns e wss st) = Inr ()"
proof (induction wss arbitrary: st)
  case Nil
  show ?case by simp
next
  case (Cons ws wss)
  let ?subs = "case map_of (ws_subscriptions st) ws of None \<Rightarrow> [] | Some subs \<Rightarrow> subs"
  obtain r st1 where s: "send_subscribed e ws ?subs st = (r, st1)"
    by (cases "send_subscribed e ws ?subs st")
  from send_subscribed_returns[OF assms, of ws ?subs st] s have "r = Inr ()" by simp
  then show ?case using s Cons[of st1] by simp
qed

lemma refresh_returns:
  assumes "\<forall>c. send_ok e c"
  shows "fst (refresh_ticker_cache_and_broadcast st e) = Inr ()"
  unfolding refresh_ticker_cache_and_broadcast_def broadcast_price_updates_def
  using broadcast_conns_returns[OF assms] by simp

lemma get_usdt_inr_rate_returns:
  assumes "\<forall>c. send_ok e c"
  shows "\<exists>r st'. get_usdt_inr_rate st e = (Inr r, st')"
proof -
  obtain x st1 where r: "refresh_ticker_cache_and_broadcast st e = (x, st1)"
    by (cases "refresh_ticker_cache_and_broadcast st e")
  from refresh_returns[OF assms, of st] r have "x = Inr ()" by simp
  then show ?thesis
    using r unfolding get_usdt_inr_rate_def by (auto split: if_splits)
qed



section \<open>Creating queued orders\<close>

lemma add_order_positive:
  "add_order st oi = (Inr new, st') \<Longrightarrow> 0 < qty new \<and> orders st' = orders st @ [new]"
  by (auto simp: add_order_def stored_order_def Let_def split: if_splits)

text \<open>
  C9 asks that every order accepted into the queue, by the single or the bulk create call,
  has a positive notional. \<^verbatim>\<open>add_order\<close> rejects a notional of -5 with 400; the request
  model puts no bound on \<^verbatim>\<open>qty\<close> and \<^verbatim>\<open>add_orders_bulk\<close> has no check of its own, so the
  same request in a bulk call is stored.
\<close>

theorem bulk_create_stores_nonpositive_qty:
  "OrderIn_valid bad_order_in
   \<and> in_qty bad_order_in = - 5
   \<and> add_order init_state bad_order_in
       = (Inl (HTTPException 400 ''Invalid order data''), init_state)
   \<and> add_orders_bulk init_state [bad_order_in]
       = (Inr [stored_order bad_order_in 1],
          init_state\<lparr>order_next_id := 2, orders := [stored_order bad_order_in 1]\<rparr>)
   \<and> qty (stored_order bad_order_in 1) = - 5"
  by code_simp

section \<open>The polling loops\<close>

text \<open>
  C5 asks that no failure within one cycle ends the background loop. In
  \<^verbatim>\<open>ticker_background_loop\<close> the refresh it calls is the rebound one, which broadcasts; a
  websocket send that raises is caught nowhere, and the loop handles cancellation only: of
  two cycles the second is never started. The loop of the price broadcaster, given the same
  two cycles, drops the connection and runs on until it is cancelled.
\<close>

theorem send_failure_ends_ticker_loop:
  "ticker_background_loop ws_state [dead_ws_env, tick_env]
     = (Crashed SendFailed,
        ws_state\<lparr>ticker_cache := [(''BTCUSDT'', 61000)], ticker_cache_updated_at := 1001,
                 net := [GetTickers]\<rparr>)
   \<and> fst (poll_loop pb_ws_state [dead_ws_env, tick_env]) = PbCancelled
   \<and> pushed (snd (poll_loop pb_ws_state [dead_ws_env, tick_env])) = []
   \<and> subscriptions (snd (poll_loop pb_ws_state [dead_ws_env, tick_env])) = []"
  by code_simp

section \<open>The price route\<close>




lemma refresh_cache:
  "ticker_cache (snd (refresh_ticker_cache_and_broadcast st e)) = ticker_cache (original_refresh st e)
   \<and> ticker_cache_updated_at (snd (refresh_ticker_cache_and_broadcast st e))
       = ticker_cache_updated_at (original_refresh st e)"
  unfolding refresh_ticker_cache_and_broadcast_def by (rule broadcast_cache)




section \<open>Serving the last good snapshot\<close>

lemma push_subscribed_tickers:
  "tickers (snd (push_subscribed e ws ss ps)) = tickers ps
   \<and> symbols_cache (snd (push_subscribed e ws ss ps)) = symbols_cache ps
   \<and> running (snd (push_subscribed e ws ss ps)) = running ps"
  by (induction ss arbitrary: ps) (auto split: option.splits)

lemma push_conns_tickers:
  "tickers (snd (push_conns e cs rm ps)) = tickers ps
   \<and> symbols_cache (snd (push_conns e cs rm ps)) = symbols_cache ps
   \<and> running (snd (push_conns e cs rm ps)) = running ps"
proof (induction cs arbitrary: rm ps)
  case Nil show ?case by simp
next
  case (Cons c cs)
  obtain ws subs where c: "c = (ws, subs)" by (cases c)
  obtain b ps1 where p: "push_subscribed e ws subs ps = (b, ps1)"
    by (cases "push_subscribed e ws subs ps")
  from push_subscribed_tickers[of e ws subs ps] p have
    k: "tickers ps1 = tickers ps \<and> symbols_cache ps1 = symbols_cache ps \<and> running ps1 = running ps"
    by simp
  show ?case using c p k Cons[of rm ps1] Cons[of "rm @ [ws]" ps1] by (cases b) simp_all
qed

lemma push_updates_tickers:
  "tickers (push_updates ps e) = tickers ps
   \<and> symbols_cache (push_updates ps e) = symbols_cache ps
   \<and> running (push_updates ps e) = running ps"
  using push_conns_tickers[of e "subscriptions ps" "[]" ps]
  by (auto simp: push_updates_def split: prod.splits)

lemma original_refresh_cases:
  "original_refresh st e =
     (case tickers_response e of
        None \<Rightarrow> st\<lparr>net := net st @ [GetTickers]\<rparr>
      | Some data \<Rightarrow>
          if fill_new_cache e (case data of JArr xs \<Rightarrow> xs | _ \<Rightarrow> []) [] = []
          then st\<lparr>net := net st @ [GetTickers]\<rparr>
          else st\<lparr>net := net st @ [GetTickers],
                  ticker_cache := fill_new_cache e (case data of JArr xs \<Rightarrow> xs | _ \<Rightarrow> []) [],
                  ticker_cache_updated_at := now e\<rparr>)"
  by (simp add: original_refresh_def Let_def split: option.splits)

text \<open>
  C4, as amended. In routes/trading.py a refresh whose fetch fails, or whose parsed result
  is empty, leaves the ticker mapping and its timestamp as they were, and a later read of a
  cached symbol answers the previous price; a non-empty result replaces the mapping whole
  and stamps it with the time of the refresh. In the price broadcaster a cycle whose fetch
  or parsing fails leaves the mapping as it was, and a cycle that parses replaces it by
  what was parsed, empty or not.
\<close>

theorem refresh_keeps_last_good:
  "(tickers_response e = None \<longrightarrow>
      ticker_cache (snd (refresh_ticker_cache_and_broadcast st e)) = ticker_cache st
      \<and> ticker_cache_updated_at (snd (refresh_ticker_cache_and_broadcast st e))
          = ticker_cache_updated_at st)
   \<and> (\<forall>data. tickers_response e = Some data \<longrightarrow>
        (fill_new_cache e (case data of JArr xs \<Rightarrow> xs | _ \<Rightarrow> []) [] = [] \<longrightarrow>
           ticker_cache (snd (refresh_ticker_cache_and_broadcast st e)) = ticker_cache st
           \<and> ticker_cache_updated_at (snd (refresh_ticker_cache_and_broadcast st e))
               = ticker_cache_updated_at st)
        \<and> (fill_new_cache e (case data of JArr xs \<Rightarrow> xs | _ \<Rightarrow> []) [] \<noteq> [] \<longrightarrow>
           ticker_cache (snd (refresh_ticker_cache_and_broadcast st e))
             = fill_new_cache e (case data of JArr xs \<Rightarrow> xs | _ \<Rightarrow> []) []
           \<and> ticker_cache_updated_at (snd (refresh_ticker_cache_and_broadcast st e)) = now e))
   \<and> (\<forall>s p e2. ticker_cache (snd (refresh_ticker_cache_and_broadcast st e)) = ticker_cache st
          \<and> map_of (ticker_cache st) (upper s) = Some p \<longrightarrow>
        fst (get_price_http (snd (refresh_ticker_cache_and_broadcast st e)) e2 s)
          = Inr \<lparr>r_symbol = upper s, r_price = p, r_source = ''cache'',
                 r_ts = ticker_cache_updated_at (snd (refresh_ticker_cache_and_broadcast st e))\<rparr>)
   \<and> (tickers_response e = None \<longrightarrow> tickers (poll_cycle ps e) = tickers ps)
   \<and> (\<forall>data x. tickers_response e = Some data \<and> py_iter data = Inl x \<longrightarrow>
        tickers (poll_cycle ps e) = tickers ps)
   \<and> (\<forall>data items x. tickers_response e = Some data \<and> py_iter data = Inr items
          \<and> parse_items e items [] [] = Inl x \<longrightarrow>
        tickers (poll_cycle ps e) = tickers ps)
   \<and> (\<forall>data items new_tickers symbols. tickers_response e = Some data
          \<and> py_iter data = Inr items
          \<and> parse_items e items [] [] = Inr (new_tickers, symbols) \<longrightarrow>
        tickers (poll_cycle ps e) = new_tickers)"
proof -
  let ?st' = "snd (refresh_ticker_cache_and_broadcast st e)"
  note rc = refresh_cache[of st e]
  have a: "tickers_response e = None \<longrightarrow>
      ticker_cache ?st' = ticker_cache st
      \<and> ticker_cache_updated_at ?st' = ticker_cache_updated_at st"
    using rc by (simp add: original_refresh_cases)
  have b: "\<forall>data. tickers_response e = Some data \<longrightarrow>
        (fill_new_cache e (case data of JArr xs \<Rightarrow> xs | _ \<Rightarrow> []) [] = [] \<longrightarrow>
           ticker_cache ?st' = ticker_cache st
           \<and> ticker_cache_updated_at ?st' = ticker_cache_updated_at st)
        \<and> (fill_new_cache e (case data of JArr xs \<Rightarrow> xs | _ \<Rightarrow> []) [] \<noteq> [] \<longrightarrow>
           ticker_cache ?st' = fill_new_cache e (case data of JArr xs \<Rightarrow> xs | _ \<Rightarrow> []) []
           \<and> ticker_cache_updated_at ?st' = now e)"
    using rc by (simp add: original_refresh_cases)
  have c: "\<forall>s p e2. ticker_cache ?st' = ticker_cache st
          \<and> map_of (ticker_cache st) (upper s) = Some p \<longrightarrow>
        fst (get_price_http ?st' e2 s)
          = Inr \<lparr>r_symbol = upper s, r_price = p, r_source = ''cache'',
                 r_ts = ticker_cache_updated_at ?st'\<rparr>"
    by (simp add: get_price_http_def)
  have d: "tickers_response e = None \<longrightarrow> tickers (poll_cycle ps e) = tickers ps"
    by (simp add: poll_cycle_def)
  have f: "\<forall>data x. tickers_response e = Some data \<and> py_iter data = Inl x \<longrightarrow>
        tickers (poll_cycle ps e) = tickers ps"
    by (simp add: poll_cycle_def)
  have g: "\<forall>data items x. tickers_response e = Some data \<and> py_iter data = Inr items
          \<and> parse_items e items [] [] = Inl x \<longrightarrow>
        tickers (poll_cycle ps e) = tickers ps"
    by (simp add: poll_cycle_def)
  have h: "\<forall>data items new_tickers symbols. tickers_response e = Some data
          \<and> py_iter data = Inr items
          \<and> parse_items e items [] [] = Inr (new_tickers, symbols) \<longrightarrow>
        tickers (poll_cycle ps e) = new_tickers"
    by (simp add: poll_cycle_def push_updates_tickers)
  from a b c d f g h show ?thesis by blast
qed

theorem refresh_keeps_last_good_witness:
  "tickers_response ex_env = None
   \<and> ticker_cache (snd (refresh_ticker_cache_and_broadcast ok_state ex_env))
       = [(''BTCUSDT'', 60000), (''USDTINR'', 90)]
   \<and> ticker_cache_updated_at (snd (refresh_ticker_cache_and_broadcast ok_state ex_env)) = 1000
   \<and> fst (get_price_http (snd (refresh_ticker_cache_and_broadcast ok_state ex_env)) late_env
            ''btcusdt'')
       = Inr \<lparr>r_symbol = ''BTCUSDT'', r_price = 60000, r_source = ''cache'', r_ts = 1000\<rparr>
   \<and> ticker_cache (snd (refresh_ticker_cache_and_broadcast ok_state empty_tick_env))
       = [(''BTCUSDT'', 60000), (''USDTINR'', 90)]
   \<and> ticker_cache (snd (refresh_ticker_cache_and_broadcast ok_state tick_env))
       = [(''BTCUSDT'', 61000)]
   \<and> ticker_cache_updated_at (snd (refresh_ticker_cache_and_broadcast ok_state tick_env)) = 1001
   \<and> tickers (poll_cycle pb_ws_state ex_env) = [(''BTCUSDT'', 60000)]
   \<and> tickers (poll_cycle pb_ws_state tick_env) = [(''BTCUSDT'', 61000)]"
proof -
  have n: "tickers_response ex_env = None" by code_simp
  have c0: "ticker_cache ok_state = [(''BTCUSDT'', 60000), (''USDTINR'', 90)]" by code_simp
  have t0: "ticker_cache_updated_at ok_state = 1000" by code_simp
  have m: "map_of (ticker_cache ok_state) (upper ''btcusdt'') = Some 60000" by code_simp
  have u: "upper ''btcusdt'' = ''BTCUSDT''" by code_simp
  have d1: "tickers_response empty_tick_env = Some (JArr [])" by code_simp
  have f1: "fill_new_cache empty_tick_env (case JArr [] of JArr xs \<Rightarrow> xs | _ \<Rightarrow> []) [] = []"
    by code_simp
  have d2: "tickers_response tick_env
     = Some (JArr [JObj [(''market'', JStr ''BTCUSDT''), (''last_price'', JNum 61000)]])"
    by code_simp
  have f2: "fill_new_cache tick_env
      (case JArr [JObj [(''market'', JStr ''BTCUSDT''), (''last_price'', JNum 61000)]] of
         JArr xs \<Rightarrow> xs | _ \<Rightarrow> []) [] = [(''BTCUSDT'', 61000)]"
    by code_simp
  have nw: "now tick_env = 1001" by code_simp
  have i2: "py_iter (JArr [JObj [(''market'', JStr ''BTCUSDT''), (''last_price'', JNum 61000)]])
      = Inr [JObj [(''market'', JStr ''BTCUSDT''), (''last_price'', JNum 61000)]]"
    by simp
  have p2: "parse_items tick_env
      [JObj [(''market'', JStr ''BTCUSDT''), (''last_price'', JNum 61000)]] [] []
      = Inr ([(''BTCUSDT'', 61000)], [''BTCUSDT''])"
    by code_simp
  have pt: "tickers pb_ws_state = [(''BTCUSDT'', 60000)]" by code_simp
  note A = refresh_keeps_last_good[of ex_env ok_state pb_ws_state]
  note B = refresh_keeps_last_good[of empty_tick_env ok_state pb_ws_state]
  note C = refresh_keeps_last_good[of tick_env ok_state pb_ws_state]
  from A n have a1: "ticker_cache (snd (refresh_ticker_cache_and_broadcast ok_state ex_env))
       = ticker_cache ok_state"
    and a2: "ticker_cache_updated_at (snd (refresh_ticker_cache_and_broadcast ok_state ex_env))
       = ticker_cache_updated_at ok_state"
    and a4: "tickers (poll_cycle pb_ws_state ex_env) = tickers pb_ws_state"
    by blast+
  from A a1 m have a3: "fst (get_price_http (snd (refresh_ticker_cache_and_broadcast ok_state ex_env))
        late_env ''btcusdt'')
       = Inr \<lparr>r_symbol = upper ''btcusdt'', r_price = 60000, r_source = ''cache'',
              r_ts = ticker_cache_updated_at (snd (refresh_ticker_cache_and_broadcast ok_state ex_env))\<rparr>"
    by blast
  from B d1 f1 have b1: "ticker_cache (snd (refresh_ticker_cache_and_broadcast ok_state empty_tick_env))
       = ticker_cache ok_state"
    by blast
  from C d2 f2 have c1: "ticker_cache (snd (refresh_ticker_cache_and_broadcast ok_state tick_env))
       = [(''BTCUSDT'', 61000)]"
    and c2: "ticker_cache_updated_at (snd (refresh_ticker_cache_and_broadcast ok_state tick_env))
       = now tick_env"
    by (metis list.distinct(1))+
  from C d2 i2 p2 have c3: "tickers (poll_cycle pb_ws_state tick_env) = [(''BTCUSDT'', 61000)]"
    by blast
  from n a1 a2 a3 a4 b1 c1 c2 c3 show ?thesis
    unfolding c0 t0 u nw pt by simp
qed

text \<open>An empty ticker list empties the mapping of the price broadcaster.\<close>

theorem broadcaster_empties_cache_counterexample:
  "tickers_response empty_tick_env = Some (JArr [])
   \<and> tickers pb_ws_state = [(''BTCUSDT'', 60000)]
   \<and> tickers (poll_cycle pb_ws_state empty_tick_env) = []
   \<and> symbols_cache (poll_cycle pb_ws_state empty_tick_env) = []"
  by code_simp

section \<open>Updating and deleting persisted orders\<close>

lemma find_map_replace:
  assumes "find (\<lambda>x. db_id x = k \<and> db_user_id x = uid) db = Some r"
    and "db_id r' = k" and "db_user_id r' = uid"
  shows "find (\<lambda>x. db_id x = k \<and> db_user_id x = uid)
           (map (\<lambda>x. if db_id x = db_id r then r' else x) db) = Some r'"
proof -
  have k: "db_id r = k"
    using assms(1) by (auto simp: find_Some_iff)
  show ?thesis
    using assms(1) unfolding k
  proof (induction db)
    case Nil then show ?case by simp
  next
    case (Cons x xs)
    then show ?case using assms(2,3) by (auto split: if_splits)
  qed
qed

lemma query_order_found:
  "query_order db u k = Some r \<Longrightarrow> db_id r = k \<and> db_user_id r = u_id u \<and> r \<in> set db"
  by (auto simp: query_order_def find_Some_iff)

text \<open>
  C8, as amended. For a stored order that the call resolves (it belongs to the caller) and
  a request that passes the request model: when the status is not QUEUED, update and delete
  are rejected with 400 ("can only update/delete queued orders") and the table is left as
  it was; when the status is QUEUED, an update whose leverage exceeds the caller's maximum
  is rejected with the table left as it was, and any other update stores a row in which
  each mutable field the request supplies is replaced, each field it leaves out is kept,
  and identifier, owner, status and creation time are those of the order.
\<close>

theorem only_queued_orders_change:
  assumes "query_order db u k = Some r" and "OrderUpdate_valid upd"
  shows "(db_status r \<noteq> QUEUED \<longrightarrow>
            update_order db u k upd t
              = (Inl (HTTPException 400 ''Can only update queued orders''), db)
            \<and> delete_order db u k
              = (Inl (HTTPException 400 ''Can only delete queued orders''), db))
         \<and> (db_status r = QUEUED \<and> (\<exists>l. up_leverage upd = Some l \<and> l > u_max_leverage u) \<longrightarrow>
            update_order db u k upd t = (Inl (HTTPException 400 ''Leverage exceeds maximum''), db))
         \<and> (db_status r = QUEUED \<and> \<not> (\<exists>l. up_leverage upd = Some l \<and> l > u_max_leverage u) \<longrightarrow>
            (\<exists>r' db'. update_order db u k upd t = (Inr r', db')
               \<and> query_order db' u k = Some r'
               \<and> length db' = length db
               \<and> db_id r' = db_id r \<and> db_created_at r' = db_created_at r
               \<and> db_user_id r' = db_user_id r \<and> db_status r' = QUEUED
               \<and> db_updated_at r' = t
               \<and> db_symbol r' = (case up_symbol upd of None \<Rightarrow> db_symbol r | Some s \<Rightarrow> upper s)
               \<and> db_side r' = (case up_side upd of None \<Rightarrow> db_side r | Some s \<Rightarrow> s)
               \<and> db_order_type r'
                   = (case up_order_type upd of None \<Rightarrow> db_order_type r | Some x \<Rightarrow> x)
               \<and> db_quantity r' = (case up_quantity upd of None \<Rightarrow> db_quantity r | Some q \<Rightarrow> q)
               \<and> db_leverage r' = (case up_leverage upd of None \<Rightarrow> db_leverage r | Some l \<Rightarrow> l)
               \<and> db_limit_price r'
                   = (case up_limit_price upd of None \<Rightarrow> db_limit_price r | Some p \<Rightarrow> Some p)
               \<and> db_margin r' = (case up_margin upd of None \<Rightarrow> db_margin r | Some m \<Rightarrow> Some m)))"
proof (intro conjI impI)
  assume "db_status r \<noteq> QUEUED"
  then show "update_order db u k upd t
              = (Inl (HTTPException 400 ''Can only update queued orders''), db)"
    using assms by (simp add: update_order_def)
next
  assume "db_status r \<noteq> QUEUED"
  then show "delete_order db u k
              = (Inl (HTTPException 400 ''Can only delete queued orders''), db)"
    using assms by (simp add: delete_order_def)
next
  assume "db_status r = QUEUED \<and> (\<exists>l. up_leverage upd = Some l \<and> l > u_max_leverage u)"
  then show "update_order db u k upd t
               = (Inl (HTTPException 400 ''Leverage exceeds maximum''), db)"
    using assms by (auto simp: update_order_def)
next
  assume a: "db_status r = QUEUED \<and> \<not> (\<exists>l. up_leverage upd = Some l \<and> l > u_max_leverage u)"
  let ?r' = "apply_update r upd t"
  let ?db' = "map (\<lambda>x. if db_id x = db_id r then ?r' else x) db"
  have lev: "\<not> (case up_leverage upd of None \<Rightarrow> False | Some l \<Rightarrow> l > u_max_leverage u)"
    using a by (auto split: option.splits)
  have run: "update_order db u k upd t = (Inr ?r', ?db')"
    using assms a lev by (simp add: update_order_def Let_def)
  from query_order_found[OF assms(1)] have ids: "db_id r = k" "db_user_id r = u_id u" by simp_all
  have keep: "db_id ?r' = k" "db_user_id ?r' = u_id u"
    using ids by (simp_all add: apply_update_def)
  have q: "query_order ?db' u k = Some ?r'"
    using find_map_replace[OF assms(1)[unfolded query_order_def] keep]
    by (simp add: query_order_def)
  show "\<exists>r' db'. update_order db u k upd t = (Inr r', db')
               \<and> query_order db' u k = Some r'
               \<and> length db' = length db
               \<and> db_id r' = db_id r \<and> db_created_at r' = db_created_at r
               \<and> db_user_id r' = db_user_id r \<and> db_status r' = QUEUED
               \<and> db_updated_at r' = t
               \<and> db_symbol r' = (case up_symbol upd of None \<Rightarrow> db_symbol r | Some s \<Rightarrow> upper s)
               \<and> db_side r' = (case up_side upd of None \<Rightarrow> db_side r | Some s \<Rightarrow> s)
               \<and> db_order_type r'
                   = (case up_order_type upd of None \<Rightarrow> db_order_type r | Some x \<Rightarrow> x)
               \<and> db_quantity r' = (case up_quantity upd of None \<Rightarrow> db_quantity r | Some q \<Rightarrow> q)
               \<and> db_leverage r' = (case up_leverage upd of None \<Rightarrow> db_leverage r | Some l \<Rightarrow> l)
               \<and> db_limit_price r'
                   = (case up_limit_price upd of None \<Rightarrow> db_limit_price r | Some p \<Rightarrow> Some p)
               \<and> db_margin r' = (case up_margin upd of None \<Rightarrow> db_margin r | Some m \<Rightarrow> Some m)"
    apply (rule exI[of _ ?r'])
    apply (rule exI[of _ ?db'])
    using run q a by (simp add: apply_update_def)
qed

theorem only_queued_orders_change_witness:
  "query_order [executed_row] ex_user 1 = Some executed_row
   \<and> update_order [executed_row] ex_user 1 ex_update 70
       = (Inl (HTTPException 400 ''Can only update queued orders''), [executed_row])
   \<and> delete_order [executed_row] ex_user 1
       = (Inl (HTTPException 400 ''Can only delete queued orders''), [executed_row])
   \<and> query_order [queued_row] ex_user 1 = Some queued_row
   \<and> update_order [queued_row] ex_user 1 greedy_update 70
       = (Inl (HTTPException 400 ''Leverage exceeds maximum''), [queued_row])
   \<and> (\<exists>r' db'. update_order [queued_row] ex_user 1 ex_update 70 = (Inr r', db')
         \<and> db_id r' = 1 \<and> db_created_at r' = 50 \<and> db_quantity r' = 200
         \<and> db_symbol r' = ''ETHUSDT'' \<and> db_side r' = BUY)"
proof -
  have q1: "query_order [executed_row] ex_user 1 = Some executed_row" by code_simp
  have q2: "query_order [queued_row] ex_user 1 = Some queued_row" by code_simp
  have v1: "OrderUpdate_valid ex_update" by code_simp
  have v2: "OrderUpdate_valid greedy_update" by code_simp
  have s1: "db_status executed_row \<noteq> QUEUED" by code_simp
  have s2: "db_status queued_row = QUEUED" by code_simp
  have l2: "\<exists>l. up_leverage greedy_update = Some l \<and> l > u_max_leverage ex_user"
    by (rule exI[of _ 50]) code_simp
  have l1: "\<not> (\<exists>l. up_leverage ex_update = Some l \<and> l > u_max_leverage ex_user)"
    by (simp add: ex_update_def ex_user_def)
  have f: "db_id queued_row = 1" "db_created_at queued_row = 50" "db_side queued_row = BUY"
    "up_quantity ex_update = Some 200" "up_symbol ex_update = Some ''ethusdt''"
    "up_side ex_update = None" "upper ''ethusdt'' = ''ETHUSDT''"
    by code_simp+
  from only_queued_orders_change[OF q1 v1, of 70] s1 have
    a: "update_order [executed_row] ex_user 1 ex_update 70
       = (Inl (HTTPException 400 ''Can only update queued orders''), [executed_row])"
    and b: "delete_order [executed_row] ex_user 1
       = (Inl (HTTPException 400 ''Can only delete queued orders''), [executed_row])"
    by blast+
  from only_queued_orders_change[OF q2 v2, of 70] s2 l2 have
    c: "update_order [queued_row] ex_user 1 greedy_update 70
       = (Inl (HTTPException 400 ''Leverage exceeds maximum''), [queued_row])"
    by blast
  from only_queued_orders_change[OF q2 v1, of 70] s2 l1 obtain r' db' where
    d: "update_order [queued_row] ex_user 1 ex_update 70 = (Inr r', db')"
      "db_id r' = db_id queued_row" "db_created_at r' = db_created_at queued_row"
      "db_quantity r' = (case up_quantity ex_update of None \<Rightarrow> db_quantity queued_row | Some q \<Rightarrow> q)"
      "db_symbol r' = (case up_symbol ex_update of None \<Rightarrow> db_symbol queued_row | Some s \<Rightarrow> upper s)"
      "db_side r' = (case up_side ex_update of None \<Rightarrow> db_side queued_row | Some s \<Rightarrow> s)"
    by blast
  from d f have "update_order [queued_row] ex_user 1 ex_update 70 = (Inr r', db')
         \<and> db_id r' = 1 \<and> db_created_at r' = 50 \<and> db_quantity r' = 200
         \<and> db_symbol r' = ''ETHUSDT'' \<and> db_side r' = BUY"
    by simp
  then have e: "\<exists>r' db'. update_order [queued_row] ex_user 1 ex_update 70 = (Inr r', db')
         \<and> db_id r' = 1 \<and> db_created_at r' = 50 \<and> db_quantity r' = 200
         \<and> db_symbol r' = ''ETHUSDT'' \<and> db_side r' = BUY"
    by blast
  from q1 a b q2 c e show ?thesis by blast
qed

text \<open>
  A queued order is not updated when the requested leverage of 50 is above the caller's
  maximum of 20: the call is rejected and the symbol it supplied is not stored.
\<close>

theorem queued_update_rejected_counterexample:
  "db_status queued_row = QUEUED
   \<and> OrderUpdate_valid greedy_update
   \<and> up_symbol greedy_update = Some ''ethusdt''
   \<and> update_order [queued_row] ex_user 1 greedy_update 70
       = (Inl (HTTPException 400 ''Leverage exceeds maximum''), [queued_row])
   \<and> db_symbol queued_row = ''BTCUSDT''"
  by code_simp

section \<open>Batch execution\<close>











end
